theory Spec2Isabelle
  imports Complex_Main "HOL-Library.AList" "HOL-Library.Multiset"
    "HOL-Library.List_Lexorder" "HOL-Library.Char_ord"
begin

section \<open>Data model (types.ts)\<close>

text \<open>
  The interfaces of \<^verbatim>\<open>types.ts\<close> become records. A TypeScript \<^verbatim>\<open>number\<close> that holds
  a point count is an \<open>int\<close> (the task catalogue and every literal of the source are
  integers); where the source divides (the progress percentage and the average score),
  the quotient is taken in \<open>real\<close>, that is, exactly. On integers of ordinary size the
  double-precision quotient falls on the same side of every threshold the source
  compares it with (\<open>15 / 50 * 100\<close> is exactly \<open>30\<close> in doubles as well) and rounds
  to the same integer. An optional field (\<^verbatim>\<open>customQuote?\<close>) is an
  \<open>option\<close>. Strings are byte lists; the emoji of the source's literals are written as
  their UTF-8 bytes. The field \<^verbatim>\<open>id\<close> is called \<open>id_str\<close> here, since \<open>id\<close> is the
  identity function of HOL.
\<close>

record userProfile =
  name :: string
  avatar :: string
  totalPoints :: int
  streak :: int

record taskTemplate =
  id_str :: string
  name :: string
  points :: int

record taskInstance = taskTemplate +
  completed :: bool

record prayerFlags =
  fajr :: bool
  dhuhr :: bool
  asr :: bool
  maghrib :: bool
  isha :: bool

datatype prayerName = Fajr | Dhuhr | Asr | Maghrib | Isha

record dailyRecord =
  date :: string
  tasks :: "taskInstance list"
  totalPointsEarned :: int
  maxPointsPossible :: int
  customQuote :: "string option"
  reportComment :: "string option"
  prayers :: "prayerFlags option"

text \<open>
  \<^verbatim>\<open>records: Record<string, DailyRecord>\<close> is a JavaScript object: a finite map that
  enumerates its keys in insertion order. It is an association list; writing a key
  replaces the value in place when the key is there and appends otherwise
  (\<open>AList.update\<close>), which is what \<^verbatim>\<open>{ ...prev.records, [selectedDate]: record }\<close> does.
\<close>

record appState =
  profile :: userProfile
  templates :: "taskTemplate list"
  records :: "(string \<times> dailyRecord) list"
  darkMode :: bool

text \<open>\<^verbatim>\<open>Partial<TaskInstance>\<close>: each field is present or not.\<close>

record taskUpdates =
  id_upd :: "string option"
  name_upd :: "string option"
  points_upd :: "int option"
  completed_upd :: "bool option"

section \<open>Constants\<close>

definition DEFAULT_TEMPLATES :: "taskTemplate list" where
  "DEFAULT_TEMPLATES =
    [\<lparr>id_str = ''1'', name = ''Morning Meditation'', points = 10\<rparr>,
     \<lparr>id_str = ''2'', name = ''Deep Work (2 Hours)'', points = 20\<rparr>,
     \<lparr>id_str = ''3'', name = ''Physical Exercise'', points = 15\<rparr>,
     \<lparr>id_str = ''4'', name = ''Read 10 Pages'', points = 10\<rparr>,
     \<lparr>id_str = ''5'', name = ''Healthy Meal Prep'', points = 15\<rparr>,
     \<lparr>id_str = ''6'', name = ''Evening Review'', points = 5\<rparr>]"

definition INITIAL_PROFILE :: userProfile where
  "INITIAL_PROFILE =
    \<lparr>userProfile.name = ''Alex Rivera'',
     avatar = ''https://picsum.photos/id/64/200/200'',
     totalPoints = 0,
     streak = 5\<rparr>"

text \<open>
  The state the component starts from when nothing is saved; \<open>dark\<close> is what the
  browser's colour-scheme query answers.
\<close>

definition initialState :: "bool \<Rightarrow> appState" where
  "initialState dark =
    \<lparr>profile = INITIAL_PROFILE, templates = DEFAULT_TEMPLATES, records = [],
     darkMode = dark\<rparr>"

section \<open>The daily record engine (App component)\<close>

text \<open>
  \<^verbatim>\<open>currentRecord\<close> (the \<^verbatim>\<open>useMemo\<close> of lines 75-86): the stored record of the selected
  date when there is one, otherwise a record synthesized from the templates.
\<close>

definition currentRecord :: "appState \<Rightarrow> string \<Rightarrow> dailyRecord" where
  "currentRecord state selectedDate =
    (case map_of (records state) selectedDate of
       Some record \<Rightarrow> record
     | None \<Rightarrow>
        \<lparr>date = selectedDate,
         tasks = map (\<lambda>t. \<lparr>id_str = id_str t, name = taskTemplate.name t,
                   points = points t, completed = False\<rparr>) (templates state),
         totalPointsEarned = 0,
         maxPointsPossible = foldl (\<lambda>acc t. acc + points t) 0 (templates state),
         customQuote = None,
         reportComment = None,
         prayers = Some \<lparr>fajr = False, dhuhr = False, asr = False,
                     maghrib = False, isha = False\<rparr>\<rparr>)"

definition comment_empty_canvas :: string where
  "comment_empty_canvas =
    ''The canvas is empty, but the potential is infinite. Let's make a mark tomorrow. ''
      @ [CHR 0xF0, CHR 0x9F, CHR 0x8C, CHR 0x99]"

definition comment_seed_sower :: string where
  "comment_seed_sower =
    ''Seed sower. Every great journey begins with these first small, intentional steps. ''
      @ [CHR 0xF0, CHR 0x9F, CHR 0x8C, CHR 0xB1]"

definition comment_momentum_builder :: string where
  "comment_momentum_builder =
    ''Momentum builder. You're carving a path through the noise. Keep going. ''
      @ [CHR 0xF0, CHR 0x9F, CHR 0x8C, CHR 0x8A]"

definition comment_peak_performer :: string where
  "comment_peak_performer =
    ''Peak performer! You are breathing the rare air of high productivity. ''
      @ [CHR 0xF0, CHR 0x9F, CHR 0x9A, CHR 0x80]"

definition comment_zenith_master :: string where
  "comment_zenith_master =
    ''Zenith Master! Today, you achieved absolute alignment. You are unstoppable. ''
      @ [CHR 0xF0, CHR 0x9F, CHR 0x92, CHR 0x8E]"

definition getReportComment :: "real \<Rightarrow> string" where
  "getReportComment progress =
    (if progress = 0 then comment_empty_canvas
     else if progress < 30 then comment_seed_sower
     else if progress < 60 then comment_momentum_builder
     else if progress < 100 then comment_peak_performer
     else comment_zenith_master)"

text \<open>
  \<^verbatim>\<open>updateRecord\<close>, lines 119-122: the three derived fields are recomputed from the
  tasks and written into the record. \<^verbatim>\<open>x || 1\<close> is \<open>1\<close> when \<open>x\<close> is \<open>0\<close> and \<open>x\<close>
  otherwise.
\<close>

definition updateRecord_fields :: "dailyRecord \<Rightarrow> dailyRecord" where
  "updateRecord_fields record =
    (let earned = foldl (\<lambda>acc t. acc + (if completed t then points t else 0)) 0 (tasks record);
         possible = foldl (\<lambda>acc t. acc + points t) 0 (tasks record);
         progressPerc = (of_int earned / of_int (if possible = 0 then 1 else possible)) * 100
     in record\<lparr>totalPointsEarned := earned,
               maxPointsPossible := possible,
               reportComment := Some (getReportComment progressPerc)\<rparr>)"

text \<open>
  \<^verbatim>\<open>updateRecord\<close>, lines 124-127: the record is stored under the selected date.
\<close>

definition updateRecord :: "appState \<Rightarrow> string \<Rightarrow> dailyRecord \<Rightarrow> appState" where
  "updateRecord prev selectedDate record =
    prev\<lparr>records := AList.update selectedDate (updateRecord_fields record) (records prev)\<rparr>"

text \<open>\<^verbatim>\<open>Array.prototype.findIndex\<close>; \<open>None\<close> is the source's \<open>-1\<close>.\<close>

fun findIndex :: "('a \<Rightarrow> bool) \<Rightarrow> 'a list \<Rightarrow> nat option" where
  "findIndex P [] = None"
| "findIndex P (x # xs) = (if P x then Some 0 else map_option Suc (findIndex P xs))"

text \<open>
  \<^verbatim>\<open>toggleTask\<close>. The source flips \<^verbatim>\<open>completed\<close> on the task object itself, which the
  shallow copy \<^verbatim>\<open>{ ...currentRecord }\<close> shares with the record it was copied from; the
  new state holds the copy only, so the state after the call is the one computed here.
  What the write does to a record object that is kept elsewhere and shares the task
  objects is \<open>toggleTask_held\<close> below.
\<close>

definition toggleTask :: "appState \<Rightarrow> string \<Rightarrow> string \<Rightarrow> appState" where
  "toggleTask state selectedDate taskId =
    (let record = currentRecord state selectedDate in
     case findIndex (\<lambda>t. id_str t = taskId) (tasks record) of
       None \<Rightarrow> state
     | Some taskIndex \<Rightarrow>
         updateRecord state selectedDate
           (record\<lparr>tasks := (tasks record)
              [taskIndex := (tasks record ! taskIndex)
                 \<lparr>completed := \<not> completed (tasks record ! taskIndex)\<rparr>]\<rparr>))"

definition getPrayer :: "prayerName \<Rightarrow> prayerFlags \<Rightarrow> bool" where
  "getPrayer p f =
    (case p of Fajr \<Rightarrow> fajr f | Dhuhr \<Rightarrow> dhuhr f | Asr \<Rightarrow> asr f
     | Maghrib \<Rightarrow> maghrib f | Isha \<Rightarrow> isha f)"

definition setPrayer :: "prayerName \<Rightarrow> bool \<Rightarrow> prayerFlags \<Rightarrow> prayerFlags" where
  "setPrayer p v f =
    (case p of Fajr \<Rightarrow> f\<lparr>fajr := v\<rparr> | Dhuhr \<Rightarrow> f\<lparr>dhuhr := v\<rparr> | Asr \<Rightarrow> f\<lparr>asr := v\<rparr>
     | Maghrib \<Rightarrow> f\<lparr>maghrib := v\<rparr> | Isha \<Rightarrow> f\<lparr>isha := v\<rparr>)"

definition togglePrayer :: "appState \<Rightarrow> string \<Rightarrow> prayerName \<Rightarrow> appState" where
  "togglePrayer state selectedDate prayer =
    (let record = currentRecord state selectedDate;
         flags = (case prayers record of
                    None \<Rightarrow> \<lparr>fajr = False, dhuhr = False, asr = False,
                             maghrib = False, isha = False\<rparr>
                  | Some f \<Rightarrow> f)
     in updateRecord state selectedDate
          (record\<lparr>prayers := Some (setPrayer prayer (\<not> getPrayer prayer flags) flags)\<rparr>))"

text \<open>\<^verbatim>\<open>{ ...t, ...updates }\<close>: a field of \<open>updates\<close> that is present wins.\<close>

definition applyUpdates :: "taskInstance \<Rightarrow> taskUpdates \<Rightarrow> taskInstance" where
  "applyUpdates t updates =
    \<lparr>id_str = (case id_upd updates of None \<Rightarrow> id_str t | Some v \<Rightarrow> v),
     name = (case name_upd updates of None \<Rightarrow> taskTemplate.name t | Some v \<Rightarrow> v),
     points = (case points_upd updates of None \<Rightarrow> points t | Some v \<Rightarrow> v),
     completed = (case completed_upd updates of None \<Rightarrow> completed t | Some v \<Rightarrow> v)\<rparr>"

definition updateTaskInstance :: "appState \<Rightarrow> string \<Rightarrow> string \<Rightarrow> taskUpdates \<Rightarrow> appState" where
  "updateTaskInstance state selectedDate taskId updates =
    (let record = currentRecord state selectedDate in
     updateRecord state selectedDate
       (record\<lparr>tasks := map (\<lambda>t. if id_str t = taskId then applyUpdates t updates else t)
                         (tasks record)\<rparr>))"

definition deleteTaskInstance :: "appState \<Rightarrow> string \<Rightarrow> string \<Rightarrow> appState" where
  "deleteTaskInstance state selectedDate taskId =
    (let record = currentRecord state selectedDate in
     updateRecord state selectedDate
       (record\<lparr>tasks := filter (\<lambda>t. id_str t \<noteq> taskId) (tasks record)\<rparr>))"

text \<open>
  The click handler of the "Define Goal" button (lines 370-373), the spec's \<open>addTask\<close>.
  \<open>randomId\<close> is what \<^verbatim>\<open>Math.random().toString(36).substr(2, 9)\<close> produced: the source
  takes the string as it comes and compares it with nothing.
\<close>

definition addTask :: "appState \<Rightarrow> string \<Rightarrow> string \<Rightarrow> appState" where
  "addTask state selectedDate randomId =
    (let record = currentRecord state selectedDate;
         newTask = \<lparr>id_str = randomId,
                    name = ''New Objective '' @ [CHR 0xF0, CHR 0x9F, CHR 0x92, CHR 0x8E],
                    points = 10, completed = False\<rparr>
     in updateRecord state selectedDate (record\<lparr>tasks := tasks record @ [newTask]\<rparr>))"

text \<open>
  The \<^verbatim>\<open>onChange\<close> handler of the quote editor (line 289), the spec's \<open>setQuote\<close>: it
  stores the current record with the typed text, without going through \<^verbatim>\<open>updateRecord\<close>.
\<close>

definition setQuote :: "appState \<Rightarrow> string \<Rightarrow> string \<Rightarrow> appState" where
  "setQuote state selectedDate text =
    state\<lparr>records := AList.update selectedDate
       ((currentRecord state selectedDate)\<lparr>customQuote := Some text\<rparr>) (records state)\<rparr>"

text \<open>
  The inspiration effect (lines 88-102) has two halves. When a date is shown, the guard
  \<^verbatim>\<open>!currentRecord.customQuote\<close> (true for an absent and for an empty quote) decides
  whether a request goes out; the closure of the request keeps the selected date and the
  \<^verbatim>\<open>currentRecord\<close> object of that moment. When the provider answers with \<open>q\<close>, the
  updater passed to \<^verbatim>\<open>setState\<close> runs on the state \<open>prev\<close> of that later moment and
  stores \<^verbatim>\<open>{ ...currentRecord, customQuote: q }\<close> under the kept date.

  The spread reads the kept object when the updater runs. The object's own fields
  (date, totals, quote, comment, the references to its task array and its prayer object)
  are never written after the request: every handler works on a copy. Its task objects
  and its prayer object are shared with the copies, though, and \<^verbatim>\<open>toggleTask\<close> and
  \<^verbatim>\<open>togglePrayer\<close> write into them in place. So the second component of the pair given
  to \<open>fetchQuote_response\<close> is the kept object as it reads on arrival: the record of the
  request when no such write came in between, and otherwise that record after
  \<open>toggleTask_held\<close> and \<open>togglePrayer_held\<close> for each write.
\<close>

definition fetchQuote_request :: "appState \<Rightarrow> string \<Rightarrow> (string \<times> dailyRecord) option" where
  "fetchQuote_request state selectedDate =
    (let record = currentRecord state selectedDate in
     if customQuote record = None \<or> customQuote record = Some []
     then Some (selectedDate, record) else None)"

definition fetchQuote_response :: "string \<times> dailyRecord \<Rightarrow> string \<Rightarrow> appState \<Rightarrow> appState" where
  "fetchQuote_response request q prev =
    prev\<lparr>records := AList.update (fst request) ((snd request)\<lparr>customQuote := Some q\<rparr>)
                      (records prev)\<rparr>"

text \<open>
  The in-place writes of \<^verbatim>\<open>toggleTask\<close> (line 134) and \<^verbatim>\<open>togglePrayer\<close> (line 141), as
  seen through a record object \<open>held\<close> that holds the task array and the prayer object of
  the current record (as the object kept by a pending request does while the date stays
  selected and only toggles and quote edits happen): the flag is flipped, the totals and
  the comment of \<open>held\<close> stay as they were. When the current record has no prayer object,
  \<^verbatim>\<open>togglePrayer\<close> gives its copy a new one and \<open>held\<close> is not touched.
\<close>

definition toggleTask_held :: "dailyRecord \<Rightarrow> string \<Rightarrow> dailyRecord" where
  "toggleTask_held held taskId =
    (case findIndex (\<lambda>t. id_str t = taskId) (tasks held) of
       None \<Rightarrow> held
     | Some taskIndex \<Rightarrow>
         held\<lparr>tasks := (tasks held)
           [taskIndex := (tasks held ! taskIndex)
              \<lparr>completed := \<not> completed (tasks held ! taskIndex)\<rparr>]\<rparr>)"

definition togglePrayer_held :: "dailyRecord \<Rightarrow> prayerName \<Rightarrow> dailyRecord" where
  "togglePrayer_held held prayer =
    (case prayers held of
       None \<Rightarrow> held
     | Some f \<Rightarrow> held\<lparr>prayers := Some (setPrayer prayer (\<not> getPrayer prayer f) f)\<rparr>)"

text \<open>
  \<^verbatim>\<open>clearAllRecords\<close>; \<open>confirmed\<close> is the answer of \<^verbatim>\<open>window.confirm\<close>.
\<close>

definition clearAllRecords :: "bool \<Rightarrow> appState \<Rightarrow> appState" where
  "clearAllRecords confirmed prev =
    (if confirmed
     then prev\<lparr>records := [],
               profile := (profile prev)\<lparr>totalPoints := 0, streak := 0\<rparr>\<rparr>
     else prev)"

section \<open>Statistics\<close>

text \<open>
  \<^verbatim>\<open>Math.round\<close> rounds to the nearest integer, a half towards plus infinity.
\<close>

definition Math_round :: "real \<Rightarrow> int" where
  "Math_round x = \<lfloor>x + 1 / 2\<rfloor>"

text \<open>
  \<^verbatim>\<open>Object.values(state.records).sort(...)\<close>: the records ordered by date. The
  comparison is \<^verbatim>\<open>localeCompare\<close>, taken here as the lexicographic order of the
  characters, with which it agrees on zero-padded ISO dates; the sort is stable.
\<close>

definition allRecords :: "appState \<Rightarrow> dailyRecord list" where
  "allRecords state = sort_key date (map snd (records state))"

definition avgScore :: "appState \<Rightarrow> int" where
  "avgScore state =
    (let rs = allRecords state in
     if length rs \<noteq> 0
     then Math_round
            (of_int (foldl (\<lambda>acc r. acc + (if totalPointsEarned r = 0 then 0
                                             else totalPointsEarned r)) 0 rs)
               / of_nat (length rs))
     else 0)"

section \<open>The properties of the specification\<close>

text \<open>
  The record invariant of the specification: the two point totals are the sums over the
  record's own tasks.
\<close>

definition derived_fields_agree :: "dailyRecord \<Rightarrow> bool" where
  "derived_fields_agree r \<longleftrightarrow>
     totalPointsEarned r = sum_list (map points (filter completed (tasks r))) \<and>
     maxPointsPossible r = sum_list (map points (tasks r))"

definition all_records_agree :: "appState \<Rightarrow> bool" where
  "all_records_agree s \<longleftrightarrow> (\<forall>r \<in> snd ` set (records s). derived_fields_agree r)"

text \<open>
  The report-comment table of the specification: the progress percentage
  \<open>100 * totalPointsEarned / max(maxPointsPossible, 1)\<close>, and the tier of each range. The
  table names no tier outside \<open>[0, 100]\<close>.
\<close>

datatype tier = EmptyCanvas | SeedSower | MomentumBuilder | PeakPerformer | ZenithMaster

definition tier_comment :: "tier \<Rightarrow> string" where
  "tier_comment t =
    (case t of EmptyCanvas \<Rightarrow> comment_empty_canvas
     | SeedSower \<Rightarrow> comment_seed_sower
     | MomentumBuilder \<Rightarrow> comment_momentum_builder
     | PeakPerformer \<Rightarrow> comment_peak_performer
     | ZenithMaster \<Rightarrow> comment_zenith_master)"

definition spec_progressPercent :: "int \<Rightarrow> int \<Rightarrow> real" where
  "spec_progressPercent earned possible = 100 * of_int earned / of_int (max possible 1)"

definition spec_tier :: "real \<Rightarrow> tier option" where
  "spec_tier p =
    (if p = 0 then Some EmptyCanvas
     else if 0 < p \<and> p < 30 then Some SeedSower
     else if 30 \<le> p \<and> p < 60 then Some MomentumBuilder
     else if 60 \<le> p \<and> p < 100 then Some PeakPerformer
     else if p = 100 then Some ZenithMaster
     else None)"

text \<open>A record with 15 of 50 points earned.\<close>

definition rec_15_50 :: dailyRecord where
  "rec_15_50 = \<lparr>date = ''2024-05-01'',
     tasks = [\<lparr>id_str = ''3'', name = ''Physical Exercise'', points = 15, completed = True\<rparr>,
              \<lparr>id_str = ''2'', name = ''Deep Work (2 Hours)'', points = 20, completed = False\<rparr>,
              \<lparr>id_str = ''5'', name = ''Healthy Meal Prep'', points = 15, completed = False\<rparr>],
     totalPointsEarned = 0, maxPointsPossible = 50, customQuote = None, reportComment = None,
     prayers = None\<rparr>"

text \<open>
  The record the specification's \<open>materialize\<close> synthesizes for a date without a stored
  record: one instance per template, none completed, no points earned, the templates'
  points as the maximum, every prayer flag false, no quote and no comment.
\<close>

definition fresh_record :: "appState \<Rightarrow> string \<Rightarrow> dailyRecord" where
  "fresh_record s d =
    \<lparr>date = d,
     tasks = map (\<lambda>t. \<lparr>id_str = id_str t, name = taskTemplate.name t,
               points = points t, completed = False\<rparr>) (templates s),
     totalPointsEarned = 0,
     maxPointsPossible = sum_list (map points (templates s)),
     customQuote = None,
     reportComment = None,
     prayers = Some \<lparr>fajr = False, dhuhr = False, asr = False,
                 maghrib = False, isha = False\<rparr>\<rparr>"

text \<open>The task instance the specification's \<open>addTask\<close> appends.\<close>

definition newObjective :: "string \<Rightarrow> taskInstance" where
  "newObjective randomId =
    \<lparr>id_str = randomId,
     name = ''New Objective '' @ [CHR 0xF0, CHR 0x9F, CHR 0x92, CHR 0x8E],
     points = 10, completed = False\<rparr>"

text \<open>
  The arithmetic mean of \<open>totalPointsEarned\<close> over the records of the mapping, \<open>0\<close> for an
  empty mapping.
\<close>

definition spec_mean :: "appState \<Rightarrow> real" where
  "spec_mean s =
    (if records s = [] then 0
     else of_int (sum_list (map (totalPointsEarned \<circ> snd) (records s)))
            / of_nat (length (records s)))"

text \<open>
  A history of two days: the first with "Morning Meditation" done (10 points), the
  second with "Physical Exercise" done (15 points).
\<close>

definition twoDays :: appState where
  "twoDays = toggleTask (toggleTask (initialState False) ''2024-05-01'' ''1'') ''2024-05-02'' ''3''"

section \<open>Basic facts\<close>

lemmas eval_defs = initialState_def DEFAULT_TEMPLATES_def INITIAL_PROFILE_def
  currentRecord_def updateRecord_def updateRecord_fields_def getReportComment_def
  addTask_def toggleTask_def Let_def

lemma foldl_plus_sum_list:
  "foldl (\<lambda>acc t. acc + f t) (a::int) xs = a + sum_list (map f xs)"
  by (induction xs arbitrary: a) simp_all

lemma map_of_updateRecord:
  "map_of (records (updateRecord s d r)) d = Some (updateRecord_fields r)"
  by (simp add: updateRecord_def update_conv')

lemma map_of_updateRecord_other:
  "d' \<noteq> d \<Longrightarrow> map_of (records (updateRecord s d r)) d' = map_of (records s) d'"
  by (simp add: updateRecord_def update_conv')

lemma updateRecord_frame:
  "profile (updateRecord s d r) = profile s"
  "templates (updateRecord s d r) = templates s"
  "darkMode (updateRecord s d r) = darkMode s"
  by (simp_all add: updateRecord_def)

lemma updateRecord_fields_kept:
  "date (updateRecord_fields r) = date r"
  "tasks (updateRecord_fields r) = tasks r"
  "customQuote (updateRecord_fields r) = customQuote r"
  "prayers (updateRecord_fields r) = prayers r"
  by (simp_all add: updateRecord_fields_def Let_def)

lemma earned_updateRecord_fields:
  "totalPointsEarned (updateRecord_fields r) =
     sum_list (map points (filter completed (tasks r)))"
  by (simp add: updateRecord_fields_def Let_def foldl_plus_sum_list sum_list_map_filter')

lemma possible_updateRecord_fields:
  "maxPointsPossible (updateRecord_fields r) = sum_list (map points (tasks r))"
  by (simp add: updateRecord_fields_def Let_def foldl_plus_sum_list)

lemma derived_fields_agree_updateRecord_fields:
  "derived_fields_agree (updateRecord_fields r)"
  by (simp add: derived_fields_agree_def earned_updateRecord_fields
      possible_updateRecord_fields updateRecord_fields_kept)

lemma findIndex_None: "findIndex P xs = None \<longleftrightarrow> (\<forall>x\<in>set xs. \<not> P x)"
  by (induction xs) auto

lemma findIndex_Some:
  "findIndex P xs = Some i \<Longrightarrow> i < length xs \<and> P (xs ! i) \<and> (\<forall>j<i. \<not> P (xs ! j))"
proof (induction xs arbitrary: i)
  case Nil
  then show ?case by simp
next
  case (Cons x xs)
  show ?case
  proof (cases "P x")
    case True
    with Cons.prems show ?thesis by simp
  next
    case False
    with Cons.prems obtain k where k: "findIndex P xs = Some k" "i = Suc k"
      by auto
    from Cons.IH[OF k(1)] False k(2) show ?thesis
      by (auto simp: less_Suc_eq_0_disj)
  qed
qed

lemma set_update_subset: "set (AList.update k v al) \<subseteq> insert (k, v) (set al)"
  by (induction al) auto

lemma all_records_agree_updateRecord:
  assumes a: "all_records_agree s"
  shows "all_records_agree (updateRecord s d r)"
  unfolding all_records_agree_def
proof
  fix x
  assume "x \<in> snd ` set (records (updateRecord s d r))"
  then obtain k where "(k, x) \<in> set (AList.update d (updateRecord_fields r) (records s))"
    by (auto simp: updateRecord_def)
  with set_update_subset[of d "updateRecord_fields r" "records s"]
  have "(k, x) = (d, updateRecord_fields r) \<or> (k, x) \<in> set (records s)"
    by blast
  then show "derived_fields_agree x"
  proof
    assume "(k, x) = (d, updateRecord_fields r)"
    then show ?thesis by (simp add: derived_fields_agree_updateRecord_fields)
  next
    assume "(k, x) \<in> set (records s)"
    then have "x \<in> snd ` set (records s)" by force
    with a[unfolded all_records_agree_def] show ?thesis by (rule bspec)
  qed
qed

lemma toggleTask_cases:
  "toggleTask s d taskId = s \<or> (\<exists>r. toggleTask s d taskId = updateRecord s d r)"
  by (auto simp: toggleTask_def Let_def split: option.splits)

lemma toggleTask_present:
  assumes "taskId \<in> id_str ` set (tasks (currentRecord s d))"
  shows "\<exists>i. findIndex (\<lambda>t. id_str t = taskId) (tasks (currentRecord s d)) = Some i \<and>
    toggleTask s d taskId = updateRecord s d
      ((currentRecord s d)\<lparr>tasks := (tasks (currentRecord s d))
          [i := (tasks (currentRecord s d) ! i)
                  \<lparr>completed := \<not> completed (tasks (currentRecord s d) ! i)\<rparr>]\<rparr>)"
proof -
  from assms have "findIndex (\<lambda>t. id_str t = taskId) (tasks (currentRecord s d)) \<noteq> None"
    by (auto simp: findIndex_None)
  then obtain i where "findIndex (\<lambda>t. id_str t = taskId) (tasks (currentRecord s d)) = Some i"
    by auto
  then show ?thesis by (simp add: toggleTask_def Let_def)
qed

section \<open>Commit: the derived fields\<close>

text \<open>
  C1. Whatever record goes through \<open>updateRecord\<close>, the record stored under the selected
  date has \<open>totalPointsEarned\<close> equal to the sum of the points of its completed tasks and
  \<open>maxPointsPossible\<close> equal to the sum of the points of all its tasks. This holds for
  the record each mutation stores (edit, add, delete, prayer toggle always store one;
  the task toggle stores one when the id is among the tasks), and a mapping whose
  records all have agreeing totals keeps that property under each mutation.
\<close>

theorem commit_recomputes_point_totals:
  "derived_fields_agree (updateRecord_fields r)
   \<and> map_of (records (updateRecord s d r)) d = Some (updateRecord_fields r)
   \<and> (taskId \<in> id_str ` set (tasks (currentRecord s d)) \<longrightarrow>
        (\<exists>r'. map_of (records (toggleTask s d taskId)) d = Some r' \<and> derived_fields_agree r'))
   \<and> (\<exists>r'. map_of (records (updateTaskInstance s d taskId u)) d = Some r'
             \<and> derived_fields_agree r')
   \<and> (\<exists>r'. map_of (records (addTask s d randomId)) d = Some r' \<and> derived_fields_agree r')
   \<and> (\<exists>r'. map_of (records (deleteTaskInstance s d taskId)) d = Some r'
             \<and> derived_fields_agree r')
   \<and> (\<exists>r'. map_of (records (togglePrayer s d p)) d = Some r' \<and> derived_fields_agree r')
   \<and> (all_records_agree s \<longrightarrow>
        all_records_agree (toggleTask s d taskId) \<and>
        all_records_agree (updateTaskInstance s d taskId u) \<and>
        all_records_agree (addTask s d randomId) \<and>
        all_records_agree (deleteTaskInstance s d taskId) \<and>
        all_records_agree (togglePrayer s d p))"
proof -
  note ok = derived_fields_agree_updateRecord_fields
  have toggle: "\<exists>r'. map_of (records (toggleTask s d taskId)) d = Some r' \<and> derived_fields_agree r'"
    if "taskId \<in> id_str ` set (tasks (currentRecord s d))"
    using toggleTask_present[OF that] by (auto simp: map_of_updateRecord ok)
  have edit: "\<exists>r'. map_of (records (updateTaskInstance s d taskId u)) d = Some r'
                  \<and> derived_fields_agree r'"
    by (simp add: updateTaskInstance_def Let_def map_of_updateRecord ok)
  have add: "\<exists>r'. map_of (records (addTask s d randomId)) d = Some r' \<and> derived_fields_agree r'"
    by (simp add: addTask_def Let_def map_of_updateRecord ok)
  have del: "\<exists>r'. map_of (records (deleteTaskInstance s d taskId)) d = Some r'
                 \<and> derived_fields_agree r'"
    by (simp add: deleteTaskInstance_def Let_def map_of_updateRecord ok)
  have pray: "\<exists>r'. map_of (records (togglePrayer s d p)) d = Some r' \<and> derived_fields_agree r'"
    by (simp add: togglePrayer_def Let_def map_of_updateRecord ok)
  have all: "all_records_agree (toggleTask s d taskId) \<and>
        all_records_agree (updateTaskInstance s d taskId u) \<and>
        all_records_agree (addTask s d randomId) \<and>
        all_records_agree (deleteTaskInstance s d taskId) \<and>
        all_records_agree (togglePrayer s d p)" if a: "all_records_agree s"
  proof -
    have "all_records_agree (toggleTask s d taskId)"
      using toggleTask_cases[of s d taskId] all_records_agree_updateRecord[OF a] a by auto
    moreover have "all_records_agree (updateTaskInstance s d taskId u)"
      by (simp add: updateTaskInstance_def Let_def all_records_agree_updateRecord[OF a])
    moreover have "all_records_agree (addTask s d randomId)"
      by (simp add: addTask_def Let_def all_records_agree_updateRecord[OF a])
    moreover have "all_records_agree (deleteTaskInstance s d taskId)"
      by (simp add: deleteTaskInstance_def Let_def all_records_agree_updateRecord[OF a])
    moreover have "all_records_agree (togglePrayer s d p)"
      by (simp add: togglePrayer_def Let_def all_records_agree_updateRecord[OF a])
    ultimately show ?thesis by simp
  qed
  show ?thesis
    using toggle all by (intro conjI impI ok map_of_updateRecord edit add del pray) simp_all
qed

theorem commit_recomputes_point_totals_witness:
  "''2'' \<in> id_str ` set (tasks (currentRecord
       (addTask (initialState False) ''2024-05-01'' ''k3j9x0a1b'') ''2024-05-01''))
   \<and> all_records_agree (addTask (initialState False) ''2024-05-01'' ''k3j9x0a1b'')
   \<and> (\<exists>r'. map_of (records (toggleTask
          (addTask (initialState False) ''2024-05-01'' ''k3j9x0a1b'') ''2024-05-01'' ''2''))
            ''2024-05-01'' = Some r' \<and> derived_fields_agree r')
   \<and> all_records_agree (toggleTask
          (addTask (initialState False) ''2024-05-01'' ''k3j9x0a1b'') ''2024-05-01'' ''2'')"
proof -
  have h1: "''2'' \<in> id_str ` set (tasks (currentRecord
       (addTask (initialState False) ''2024-05-01'' ''k3j9x0a1b'') ''2024-05-01''))"
    by (simp add: eval_defs)
  have h2: "all_records_agree (addTask (initialState False) ''2024-05-01'' ''k3j9x0a1b'')"
    by (simp add: eval_defs derived_fields_agree_def all_records_agree_def)
  from h1 h2 commit_recomputes_point_totals
    [where taskId = "''2''" and s = "addTask (initialState False) ''2024-05-01'' ''k3j9x0a1b''"
       and d = "''2024-05-01''"]
  show ?thesis by blast
qed

text \<open>
  C10. \<open>updateRecord\<close> stores the record it was given with its date, its quote, its
  prayer flags and its task list as they were: the stored record differs from the
  given one in \<open>totalPointsEarned\<close>, \<open>maxPointsPossible\<close> and \<open>reportComment\<close> only.
\<close>

theorem updateRecord_keeps_other_fields:
  "map_of (records (updateRecord s d r)) d = Some (updateRecord_fields r)
   \<and> date (updateRecord_fields r) = date r
   \<and> customQuote (updateRecord_fields r) = customQuote r
   \<and> prayers (updateRecord_fields r) = prayers r
   \<and> tasks (updateRecord_fields r) = tasks r
   \<and> updateRecord_fields r =
       r\<lparr>totalPointsEarned := totalPointsEarned (updateRecord_fields r),
         maxPointsPossible := maxPointsPossible (updateRecord_fields r),
         reportComment := reportComment (updateRecord_fields r)\<rparr>"
  by (simp add: map_of_updateRecord updateRecord_fields_kept)

section \<open>The report comment\<close>

lemma tier_comment_inj: "inj tier_comment"
proof (rule injI)
  fix a b
  assume "tier_comment a = tier_comment b"
  then show "a = b"
    by (cases a; cases b)
       (simp_all add: tier_comment_def comment_empty_canvas_def comment_seed_sower_def
          comment_momentum_builder_def comment_peak_performer_def comment_zenith_master_def)
qed

lemma sum_completed_bounds:
  assumes "\<forall>t\<in>set ts. 0 \<le> points t"
  shows "0 \<le> sum_list (map points (filter completed ts))"
    and "sum_list (map points (filter completed ts)) \<le> sum_list (map points ts)"
  using assms by (induction ts) auto

lemma getReportComment_spec_tier:
  assumes "0 \<le> p" "p \<le> 100"
  shows "\<exists>t. spec_tier p = Some t \<and> getReportComment p = tier_comment t"
  using assms by (auto simp: spec_tier_def getReportComment_def tier_comment_def)

lemma progress_code_eq_spec:
  assumes "0 \<le> m"
  shows "(of_int e / of_int (if m = 0 then 1 else m)) * 100 = spec_progressPercent e m"
proof -
  from assms have "max m 1 = (if m = 0 then 1 else m)" by auto
  then show ?thesis by (simp add: spec_progressPercent_def)
qed

lemma spec_progressPercent_range:
  assumes "0 \<le> e" "e \<le> m"
  shows "0 \<le> spec_progressPercent e m" "spec_progressPercent e m \<le> 100"
proof -
  have pos: "(0::real) < of_int (max m 1)" by simp
  show "0 \<le> spec_progressPercent e m"
    using assms pos by (simp add: spec_progressPercent_def)
  have "e \<le> max m 1" using assms by simp
  then have "(of_int e :: real) \<le> of_int (max m 1)" by (simp only: of_int_le_iff)
  then show "spec_progressPercent e m \<le> 100"
    using pos by (simp add: spec_progressPercent_def pos_divide_le_eq)
qed

lemma reportComment_updateRecord_fields:
  "reportComment (updateRecord_fields r) =
     Some (getReportComment
       ((of_int (totalPointsEarned (updateRecord_fields r))
          / of_int (if maxPointsPossible (updateRecord_fields r) = 0 then 1
                    else maxPointsPossible (updateRecord_fields r))) * 100))"
  by (simp add: updateRecord_fields_def Let_def)

text \<open>
  C2. For a record whose tasks have no negative points, the comment that \<open>updateRecord\<close>
  stores is the comment of the tier the specification's table gives to
  \<open>100 * totalPointsEarned / max(maxPointsPossible, 1)\<close>, computed from the stored totals:
  the percentage lies in \<open>[0, 100]\<close>, the table names exactly one tier for it (empty
  canvas at 0, seed sower on (0, 30), momentum builder on [30, 60), peak performer on
  [60, 100), zenith master at 100), and different tiers have different comments. A
  record without tasks has percentage 0 and the empty-canvas comment.
\<close>

theorem reportComment_is_spec_tier:
  assumes "\<forall>t\<in>set (tasks r). 0 \<le> points t"
  shows "let r' = updateRecord_fields r;
             p = spec_progressPercent (totalPointsEarned r') (maxPointsPossible r')
         in map_of (records (updateRecord s d r)) d = Some r'
          \<and> 0 \<le> p \<and> p \<le> 100
          \<and> (\<exists>t. spec_tier p = Some t \<and> reportComment r' = Some (tier_comment t))
          \<and> (tasks r = [] \<longrightarrow> p = 0 \<and> reportComment r' = Some (tier_comment EmptyCanvas))
          \<and> inj tier_comment"
proof -
  define r' where "r' = updateRecord_fields r"
  define e where "e = totalPointsEarned r'"
  define m where "m = maxPointsPossible r'"
  define p where "p = spec_progressPercent e m"
  have e: "e = sum_list (map points (filter completed (tasks r)))"
    by (simp add: e_def r'_def earned_updateRecord_fields)
  have m: "m = sum_list (map points (tasks r))"
    by (simp add: m_def r'_def possible_updateRecord_fields)
  from sum_completed_bounds[OF assms] have e0: "0 \<le> e" and em: "e \<le> m"
    by (simp_all add: e m)
  then have m0: "0 \<le> m" by simp
  have rc: "reportComment r' = Some (getReportComment p)"
    unfolding r'_def p_def e_def m_def
    by (simp only: reportComment_updateRecord_fields
        progress_code_eq_spec[OF m0[unfolded m_def r'_def]])
  from spec_progressPercent_range[OF e0 em] have p0: "0 \<le> p" and p100: "p \<le> 100"
    by (simp_all add: p_def)
  from getReportComment_spec_tier[OF p0 p100] rc
  have tier: "\<exists>t. spec_tier p = Some t \<and> reportComment r' = Some (tier_comment t)"
    by simp
  have empty: "p = 0 \<and> reportComment r' = Some (tier_comment EmptyCanvas)" if "tasks r = []"
  proof -
    from that have "e = 0" by (simp add: e)
    then have "p = 0" by (simp add: p_def spec_progressPercent_def)
    with rc show ?thesis by (simp add: getReportComment_def tier_comment_def)
  qed
  have stored: "map_of (records (updateRecord s d r)) d = Some r'"
    by (simp add: r'_def map_of_updateRecord)
  from stored p0 p100 tier empty tier_comment_inj show ?thesis
    unfolding Let_def r'_def[symmetric] e_def[symmetric] m_def[symmetric] p_def[symmetric]
    by simp
qed

theorem reportComment_is_spec_tier_witness:
  "list_all (\<lambda>t. 0 \<le> points t) (tasks rec_15_50)
   \<and> spec_progressPercent (totalPointsEarned (updateRecord_fields rec_15_50))
        (maxPointsPossible (updateRecord_fields rec_15_50)) = 30
   \<and> reportComment (updateRecord_fields rec_15_50) = Some (tier_comment MomentumBuilder)
   \<and> tasks (rec_15_50\<lparr>tasks := []\<rparr>) = []
   \<and> spec_progressPercent (totalPointsEarned (updateRecord_fields (rec_15_50\<lparr>tasks := []\<rparr>)))
        (maxPointsPossible (updateRecord_fields (rec_15_50\<lparr>tasks := []\<rparr>))) = 0
   \<and> reportComment (updateRecord_fields (rec_15_50\<lparr>tasks := []\<rparr>))
        = Some (tier_comment EmptyCanvas)"
proof -
  have h: "\<forall>t\<in>set (tasks rec_15_50). 0 \<le> points t"
    by (simp add: rec_15_50_def)
  have p: "spec_progressPercent (totalPointsEarned (updateRecord_fields rec_15_50))
        (maxPointsPossible (updateRecord_fields rec_15_50)) = 30"
    by (simp add: rec_15_50_def updateRecord_fields_def Let_def spec_progressPercent_def)
  from reportComment_is_spec_tier
    [OF h, where s = "initialState False" and d = "''2024-05-01''"]
  obtain t where "spec_tier 30 = Some t"
    and "reportComment (updateRecord_fields rec_15_50) = Some (tier_comment t)"
    unfolding Let_def p by blast
  moreover have "spec_tier 30 = Some MomentumBuilder"
    by (simp add: spec_tier_def)
  ultimately have m: "reportComment (updateRecord_fields rec_15_50)
      = Some (tier_comment MomentumBuilder)"
    by simp
  have h0: "\<forall>t\<in>set (tasks (rec_15_50\<lparr>tasks := []\<rparr>)). 0 \<le> points t"
    and e: "tasks (rec_15_50\<lparr>tasks := []\<rparr>) = []"
    by simp_all
  from reportComment_is_spec_tier
    [OF h0, where s = "initialState False" and d = "''2024-05-01''"] e
  have "spec_progressPercent (totalPointsEarned (updateRecord_fields (rec_15_50\<lparr>tasks := []\<rparr>)))
        (maxPointsPossible (updateRecord_fields (rec_15_50\<lparr>tasks := []\<rparr>))) = 0
     \<and> reportComment (updateRecord_fields (rec_15_50\<lparr>tasks := []\<rparr>))
        = Some (tier_comment EmptyCanvas)"
    unfolding Let_def by blast
  with h p m e show ?thesis by (simp add: list_all_iff)
qed

section \<open>Toggling a task\<close>

text \<open>
  C4. When no task of the current record has the given id, \<open>toggleTask\<close> returns the
  state it was given: nothing is stored, the records mapping is the same, and so is the
  current record of every date, with all its fields.
\<close>

theorem toggleTask_absent_id_noop:
  assumes "taskId \<notin> id_str ` set (tasks (currentRecord s d))"
  shows "toggleTask s d taskId = s
    \<and> records (toggleTask s d taskId) = records s
    \<and> currentRecord (toggleTask s d taskId) d' = currentRecord s d'"
proof -
  from assms have "findIndex (\<lambda>t. id_str t = taskId) (tasks (currentRecord s d)) = None"
    by (auto simp: findIndex_None)
  then have "toggleTask s d taskId = s"
    by (simp add: toggleTask_def Let_def)
  then show ?thesis by simp
qed

theorem toggleTask_absent_id_noop_witness:
  "''7'' \<notin> id_str ` set (tasks (currentRecord (initialState False) ''2024-05-01''))
   \<and> toggleTask (initialState False) ''2024-05-01'' ''7'' = initialState False"
proof -
  have h: "''7'' \<notin> id_str ` set (tasks (currentRecord (initialState False) ''2024-05-01''))"
    by (simp add: eval_defs)
  from h toggleTask_absent_id_noop[OF h] show ?thesis by simp
qed

lemma currentRecord_updateRecord:
  "currentRecord (updateRecord s d x) d = updateRecord_fields x"
  by (simp add: currentRecord_def map_of_updateRecord)

lemma findIndex_list_update:
  "findIndex P xs = Some i \<Longrightarrow> P y \<Longrightarrow> findIndex P (xs[i := y]) = Some i"
proof (induction xs arbitrary: i)
  case Nil
  then show ?case by simp
next
  case (Cons x xs)
  show ?case
  proof (cases "P x")
    case True
    with Cons.prems show ?thesis by simp
  next
    case False
    with Cons.prems obtain k where k: "findIndex P xs = Some k" "i = Suc k"
      by auto
    from Cons.IH[OF k(1) Cons.prems(2)] False k(2) show ?thesis by simp
  qed
qed

lemma toggleTask_twice:
  assumes "taskId \<in> id_str ` set (tasks (currentRecord s d))"
  shows "currentRecord (toggleTask (toggleTask s d taskId) d taskId) d
           = updateRecord_fields (currentRecord s d)"
proof -
  define r where "r = currentRecord s d"
  define P where "P = (\<lambda>t::taskInstance. id_str t = taskId)"
  from toggleTask_present[OF assms] obtain i where
    i: "findIndex P (tasks r) = Some i" and
    s1: "toggleTask s d taskId = updateRecord s d
          (r\<lparr>tasks := (tasks r)[i := (tasks r ! i)\<lparr>completed := \<not> completed (tasks r ! i)\<rparr>]\<rparr>)"
    unfolding r_def P_def by blast
  define ts' where "ts' = (tasks r)[i := (tasks r ! i)\<lparr>completed := \<not> completed (tasks r ! i)\<rparr>]"
  define s1 where "s1 = toggleTask s d taskId"
  define r1 where "r1 = updateRecord_fields (r\<lparr>tasks := ts'\<rparr>)"
  from findIndex_Some[OF i] have len: "i < length (tasks r)" and Pi: "P (tasks r ! i)"
    by simp_all
  have cur1: "currentRecord s1 d = r1"
    by (simp add: s1_def s1 r1_def ts'_def currentRecord_updateRecord)
  have tasks1: "tasks r1 = ts'"
    by (simp add: r1_def updateRecord_fields_kept)
  have "P ((tasks r ! i)\<lparr>completed := \<not> completed (tasks r ! i)\<rparr>)"
    using Pi by (simp add: P_def)
  from findIndex_list_update[OF i this] have i': "findIndex P ts' = Some i"
    by (simp add: ts'_def)
  have restored: "ts'[i := (ts' ! i)\<lparr>completed := \<not> completed (ts' ! i)\<rparr>] = tasks r"
    using len by (simp add: ts'_def list_update_same_conv)
  have "toggleTask s1 d taskId
          = updateRecord s1 d (r1\<lparr>tasks := ts'[i := (ts' ! i)\<lparr>completed := \<not> completed (ts' ! i)\<rparr>]\<rparr>)"
    using i' by (simp add: toggleTask_def Let_def cur1 tasks1 P_def)
  then have "currentRecord (toggleTask s1 d taskId) d = updateRecord_fields (r1\<lparr>tasks := tasks r\<rparr>)"
    by (simp add: currentRecord_updateRecord restored)
  also have "\<dots> = updateRecord_fields (r\<lparr>tasks := tasks r\<rparr>)"
    by (simp add: r1_def updateRecord_fields_def Let_def)
  also have "\<dots> = updateRecord_fields r" by simp
  finally show ?thesis by (simp add: s1_def r_def)
qed

lemma currentRecord_fresh_agree:
  "map_of (records s) d = None \<Longrightarrow> derived_fields_agree (currentRecord s d)"
  by (simp add: currentRecord_def derived_fields_agree_def foldl_plus_sum_list comp_def)

lemma currentRecord_absent:
  "map_of (records s) d = None \<Longrightarrow> currentRecord s d = fresh_record s d"
  by (simp add: currentRecord_def fresh_record_def foldl_plus_sum_list)

lemma updateRecord_fields_idem:
  "updateRecord_fields (updateRecord_fields r) = updateRecord_fields r"
  by (simp add: updateRecord_fields_def Let_def)

text \<open>
  C5 as stated fails on a day that has never been committed: its materialized record has
  no report comment, and after toggling "Morning Meditation" twice the stored record
  carries the empty-canvas comment.
\<close>

theorem toggleTask_twice_counterexample:
  "''1'' \<in> id_str ` set (tasks (currentRecord (initialState False) ''2024-05-01''))
   \<and> reportComment (currentRecord (initialState False) ''2024-05-01'') = None
   \<and> reportComment (currentRecord
        (toggleTask (toggleTask (initialState False) ''2024-05-01'' ''1'') ''2024-05-01'' ''1'')
        ''2024-05-01'') = Some comment_empty_canvas"
  by (simp add: eval_defs update_conv')

text \<open>
  C5, amended. For a task id among the current record's tasks, toggling it twice leaves
  as current record the one \<open>updateRecord\<close> computes from the record before the toggles:
  the task list is the same, \<open>totalPointsEarned\<close> and \<open>maxPointsPossible\<close> are the
  pre-toggle values whenever those were the sums over the tasks, and the whole record,
  \<open>reportComment\<close> included, is the pre-toggle record whenever that record had come out of
  \<open>updateRecord\<close>. For a date without a stored record the two totals return to their
  pre-toggle values, and \<open>reportComment\<close> goes from absent to present.
\<close>

theorem toggleTask_twice_recommits:
  assumes "taskId \<in> id_str ` set (tasks (currentRecord s d))"
  shows "let r = currentRecord s d;
             r2 = currentRecord (toggleTask (toggleTask s d taskId) d taskId) d
         in r2 = updateRecord_fields r
          \<and> tasks r2 = tasks r
          \<and> (derived_fields_agree r \<longrightarrow>
                totalPointsEarned r2 = totalPointsEarned r
                \<and> maxPointsPossible r2 = maxPointsPossible r)
          \<and> ((\<exists>r0. r = updateRecord_fields r0) \<longrightarrow> r2 = r)
          \<and> (map_of (records s) d = None \<longrightarrow>
                totalPointsEarned r2 = totalPointsEarned r
                \<and> maxPointsPossible r2 = maxPointsPossible r
                \<and> reportComment r = None \<and> reportComment r2 \<noteq> None)"
proof -
  define r where "r = currentRecord s d"
  define r2 where "r2 = currentRecord (toggleTask (toggleTask s d taskId) d taskId) d"
  have eq: "r2 = updateRecord_fields r"
    unfolding r_def r2_def by (rule toggleTask_twice[OF assms])
  have t: "tasks r2 = tasks r"
    by (simp add: eq updateRecord_fields_kept)
  have agree: "totalPointsEarned r2 = totalPointsEarned r
                \<and> maxPointsPossible r2 = maxPointsPossible r" if "derived_fields_agree r"
    using that
    by (simp add: eq earned_updateRecord_fields possible_updateRecord_fields
        derived_fields_agree_def)
  have committed: "r2 = r" if "\<exists>r0. r = updateRecord_fields r0"
    using that by (auto simp: eq updateRecord_fields_idem)
  have fresh: "totalPointsEarned r2 = totalPointsEarned r
                \<and> maxPointsPossible r2 = maxPointsPossible r
                \<and> reportComment r = None \<and> reportComment r2 \<noteq> None"
    if n: "map_of (records s) d = None"
  proof -
    from currentRecord_fresh_agree[OF n] have "derived_fields_agree r" by (simp add: r_def)
    from agree[OF this] have "totalPointsEarned r2 = totalPointsEarned r"
      and "maxPointsPossible r2 = maxPointsPossible r" by simp_all
    moreover have "reportComment r = None"
      using n by (simp add: r_def currentRecord_def)
    moreover have "reportComment r2 \<noteq> None"
      by (simp add: eq updateRecord_fields_def Let_def)
    ultimately show ?thesis by simp
  qed
  from eq t agree committed fresh show ?thesis
    unfolding Let_def r_def[symmetric] r2_def[symmetric] by blast
qed

theorem toggleTask_twice_recommits_witness:
  "''1'' \<in> id_str ` set (tasks (currentRecord
       (toggleTask (initialState False) ''2024-05-01'' ''2'') ''2024-05-01''))
   \<and> currentRecord (toggleTask (toggleTask
         (toggleTask (initialState False) ''2024-05-01'' ''2'') ''2024-05-01'' ''1'')
            ''2024-05-01'' ''1'') ''2024-05-01''
      = currentRecord (toggleTask (initialState False) ''2024-05-01'' ''2'') ''2024-05-01''
   \<and> ''1'' \<in> id_str ` set (tasks (currentRecord (initialState False) ''2024-05-01''))
   \<and> map_of (records (initialState False)) ''2024-05-01'' = None
   \<and> derived_fields_agree (currentRecord (initialState False) ''2024-05-01'')
   \<and> totalPointsEarned (currentRecord (toggleTask (toggleTask
         (initialState False) ''2024-05-01'' ''1'') ''2024-05-01'' ''1'') ''2024-05-01'')
      = totalPointsEarned (currentRecord (initialState False) ''2024-05-01'')
   \<and> reportComment (currentRecord (toggleTask (toggleTask
         (initialState False) ''2024-05-01'' ''1'') ''2024-05-01'' ''1'') ''2024-05-01'')
      \<noteq> None"
proof -
  define s where "s = toggleTask (initialState False) ''2024-05-01'' ''2''"
  have "''2'' \<in> id_str ` set (tasks (currentRecord (initialState False) ''2024-05-01''))"
    by (simp add: eval_defs)
  from toggleTask_present[OF this] obtain r0 where
    "s = updateRecord (initialState False) ''2024-05-01'' r0"
    unfolding s_def by blast
  then have c: "\<exists>r0. currentRecord s ''2024-05-01'' = updateRecord_fields r0"
    by (auto simp: currentRecord_updateRecord)
  have h: "''1'' \<in> id_str ` set (tasks (currentRecord s ''2024-05-01''))"
    unfolding s_def by (simp add: eval_defs update_conv')
  from toggleTask_twice_recommits[OF h] c
  have a: "currentRecord (toggleTask (toggleTask s ''2024-05-01'' ''1'') ''2024-05-01'' ''1'')
          ''2024-05-01'' = currentRecord s ''2024-05-01''"
    unfolding Let_def by blast
  have h': "''1'' \<in> id_str ` set (tasks (currentRecord (initialState False) ''2024-05-01''))"
    by (simp add: eval_defs)
  have n: "map_of (records (initialState False)) ''2024-05-01'' = None"
    by (simp add: initialState_def)
  have g: "derived_fields_agree (currentRecord (initialState False) ''2024-05-01'')"
    by (rule currentRecord_fresh_agree[OF n])
  from toggleTask_twice_recommits[OF h'] n
  have b: "totalPointsEarned (currentRecord (toggleTask (toggleTask
         (initialState False) ''2024-05-01'' ''1'') ''2024-05-01'' ''1'') ''2024-05-01'')
      = totalPointsEarned (currentRecord (initialState False) ''2024-05-01'')
   \<and> reportComment (currentRecord (toggleTask (toggleTask
         (initialState False) ''2024-05-01'' ''1'') ''2024-05-01'' ''1'') ''2024-05-01'')
      \<noteq> None"
    unfolding Let_def by blast
  from h a h' n g b show ?thesis unfolding s_def by simp
qed

section \<open>Adding a task\<close>

text \<open>
  C7 as stated fails when the generator repeats a string: after a first added task with
  id \<open>k3j9x0a1b\<close>, a second one that draws the same string is appended under the same
  id, and the ids of the record are no longer distinct.
\<close>

theorem addTask_id_collision_counterexample:
  "distinct (map id_str (tasks (currentRecord
       (addTask (initialState False) ''2024-05-01'' ''k3j9x0a1b'') ''2024-05-01'')))
   \<and> ''k3j9x0a1b'' \<in> id_str ` set (tasks (currentRecord
       (addTask (initialState False) ''2024-05-01'' ''k3j9x0a1b'') ''2024-05-01''))
   \<and> id_str (last (tasks (currentRecord
        (addTask (addTask (initialState False) ''2024-05-01'' ''k3j9x0a1b'')
           ''2024-05-01'' ''k3j9x0a1b'') ''2024-05-01''))) = ''k3j9x0a1b''
   \<and> \<not> distinct (map id_str (tasks (currentRecord
        (addTask (addTask (initialState False) ''2024-05-01'' ''k3j9x0a1b'')
           ''2024-05-01'' ''k3j9x0a1b'') ''2024-05-01'')))"
  by (simp add: eval_defs update_conv')

text \<open>
  C7, amended. \<open>addTask\<close> keeps the existing tasks in order and appends one task with
  \<open>completed = False\<close> whose id is the string the random generator produced; the string
  is compared with nothing, so the ids of the record are distinct after the call exactly
  when they were before and the generated string is none of them.
\<close>

theorem addTask_appends_random_id:
  "tasks (currentRecord (addTask s d randomId) d)
      = tasks (currentRecord s d) @ [newObjective randomId]
   \<and> completed (last (tasks (currentRecord (addTask s d randomId) d))) = False
   \<and> id_str (last (tasks (currentRecord (addTask s d randomId) d))) = randomId
   \<and> (distinct (map id_str (tasks (currentRecord (addTask s d randomId) d)))
        = (distinct (map id_str (tasks (currentRecord s d)))
            \<and> randomId \<notin> id_str ` set (tasks (currentRecord s d))))"
proof -
  have t: "tasks (currentRecord (addTask s d randomId) d)
      = tasks (currentRecord s d) @ [newObjective randomId]"
    by (simp add: addTask_def Let_def currentRecord_updateRecord updateRecord_fields_kept
        newObjective_def)
  show ?thesis
    unfolding t by (auto simp: newObjective_def)
qed

section \<open>Reset\<close>

text \<open>
  C8. A confirmed \<open>clearAllRecords\<close> returns, in its single state update, a state with an
  empty records mapping and with \<open>totalPoints\<close> and \<open>streak\<close> zero; name, avatar,
  templates and dark mode are kept, and a declined confirmation changes nothing. In the
  state after the reset the current record of every date is the record synthesized from
  the templates, one uncompleted instance per template.
\<close>

theorem clearAllRecords_resets:
  "records (clearAllRecords True s) = []
   \<and> totalPoints (profile (clearAllRecords True s)) = 0
   \<and> streak (profile (clearAllRecords True s)) = 0
   \<and> userProfile.name (profile (clearAllRecords True s)) = userProfile.name (profile s)
   \<and> avatar (profile (clearAllRecords True s)) = avatar (profile s)
   \<and> templates (clearAllRecords True s) = templates s
   \<and> darkMode (clearAllRecords True s) = darkMode s
   \<and> clearAllRecords False s = s
   \<and> currentRecord (clearAllRecords True s) d = fresh_record s d
   \<and> length (tasks (currentRecord (clearAllRecords True s) d)) = length (templates s)
   \<and> list_all (\<lambda>t. \<not> completed t) (tasks (currentRecord (clearAllRecords True s) d))"
  by (simp add: clearAllRecords_def currentRecord_def fresh_record_def foldl_plus_sum_list
      list_all_iff)

section \<open>Showing a date and the inspiration response\<close>

text \<open>
  C3 as stated fails: showing a date that has no stored record sends an inspiration
  request, and the answer stores a record under that date although no mutation took
  place.
\<close>

theorem view_stores_record_counterexample:
  "map_of (records (initialState False)) ''2024-05-01'' = None
   \<and> fetchQuote_request (initialState False) ''2024-05-01''
        = Some (''2024-05-01'', currentRecord (initialState False) ''2024-05-01'')
   \<and> map_of (records (fetchQuote_response
          (''2024-05-01'', currentRecord (initialState False) ''2024-05-01'')
          ''Begin.'' (initialState False))) ''2024-05-01'' \<noteq> None"
  by (simp add: initialState_def fetchQuote_request_def fetchQuote_response_def
      currentRecord_def Let_def)

text \<open>
  C3, amended. For a date without a stored record, \<open>currentRecord\<close> is the synthesized
  record (one instance per template, none completed, no points earned) and, being a
  function of the state, writes nothing. Showing such a date does send an inspiration
  request that keeps the date and that record, and once the provider answers, the record
  with the answer as its quote is stored under the date.
\<close>

theorem currentRecord_pure_but_quote_stored:
  assumes "map_of (records s) d = None"
  shows "currentRecord s d = fresh_record s d
   \<and> length (tasks (currentRecord s d)) = length (templates s)
   \<and> list_all (\<lambda>t. \<not> completed t) (tasks (currentRecord s d))
   \<and> totalPointsEarned (currentRecord s d) = 0
   \<and> fetchQuote_request s d = Some (d, currentRecord s d)
   \<and> map_of (records (fetchQuote_response (d, currentRecord s d) q s)) d
        = Some ((currentRecord s d)\<lparr>customQuote := Some q\<rparr>)"
proof -
  have c: "currentRecord s d = fresh_record s d"
    by (rule currentRecord_absent[OF assms])
  have "fetchQuote_request s d = Some (d, currentRecord s d)"
    by (simp add: fetchQuote_request_def Let_def c fresh_record_def)
  moreover have "map_of (records (fetchQuote_response (d, currentRecord s d) q s)) d
        = Some ((currentRecord s d)\<lparr>customQuote := Some q\<rparr>)"
    by (simp add: fetchQuote_response_def update_conv')
  moreover have "length (tasks (fresh_record s d)) = length (templates s)"
    and "list_all (\<lambda>t. \<not> completed t) (tasks (fresh_record s d))"
    and "totalPointsEarned (fresh_record s d) = 0"
    by (simp_all add: fresh_record_def list_all_iff)
  ultimately show ?thesis by (simp add: c)
qed

theorem currentRecord_pure_but_quote_stored_witness:
  "map_of (records (initialState False)) ''2024-05-01'' = None
   \<and> currentRecord (initialState False) ''2024-05-01''
        = fresh_record (initialState False) ''2024-05-01''
   \<and> fetchQuote_request (initialState False) ''2024-05-01''
        = Some (''2024-05-01'', currentRecord (initialState False) ''2024-05-01'')"
proof -
  have h: "map_of (records (initialState False)) ''2024-05-01'' = None"
    by (simp add: initialState_def)
  from h currentRecord_pure_but_quote_stored[OF h] show ?thesis by simp
qed

text \<open>
  C9 asks that an answer which arrives when the date's record already has a quote be
  discarded, the record staying as it is. The source does not do that. On a fresh day
  the request goes out; the user then types a quote of their own, which is stored; the
  answer that arrives afterwards stores the record kept by the request with the answer
  as its quote, so the record of the date changes and the typed quote is gone.
\<close>

theorem late_response_overwrites_typed_quote:
  "fetchQuote_request (initialState False) ''2024-05-01''
      = Some (''2024-05-01'', currentRecord (initialState False) ''2024-05-01'')
   \<and> customQuote (currentRecord (setQuote (initialState False) ''2024-05-01'' ''Mine'')
        ''2024-05-01'') = Some ''Mine''
   \<and> customQuote (currentRecord
        (fetchQuote_response
           (''2024-05-01'', currentRecord (initialState False) ''2024-05-01'') ''Late''
           (setQuote (initialState False) ''2024-05-01'' ''Mine''))
        ''2024-05-01'') = Some ''Late''
   \<and> map_of (records (fetchQuote_response
           (''2024-05-01'', currentRecord (initialState False) ''2024-05-01'') ''Late''
           (setQuote (initialState False) ''2024-05-01'' ''Mine''))) ''2024-05-01''
      \<noteq> map_of (records (setQuote (initialState False) ''2024-05-01'' ''Mine'')) ''2024-05-01''"
  by (simp add: initialState_def fetchQuote_request_def fetchQuote_response_def
      setQuote_def currentRecord_def Let_def update_conv')

text \<open>
  The kept object and the current record hold the same task objects, so they show the
  same flags after a toggle; the totals of the kept object are not recomputed.
\<close>

lemma toggleTask_held_tasks:
  assumes "tasks held = tasks (currentRecord s d)"
  shows "tasks (toggleTask_held held taskId) = tasks (currentRecord (toggleTask s d taskId) d)"
proof (cases "findIndex (\<lambda>t. id_str t = taskId) (tasks (currentRecord s d))")
  case None
  then show ?thesis
    using assms by (simp add: toggleTask_held_def toggleTask_def Let_def)
next
  case (Some i)
  then show ?thesis
    using assms
    by (simp add: toggleTask_held_def toggleTask_def Let_def currentRecord_updateRecord
        updateRecord_fields_kept)
qed

lemma togglePrayer_held_prayers:
  assumes "prayers held = prayers (currentRecord s d)" and "prayers held \<noteq> None"
  shows "prayers (togglePrayer_held held p) = prayers (currentRecord (togglePrayer s d p) d)"
  using assms
  by (auto simp: togglePrayer_held_def togglePrayer_def Let_def currentRecord_updateRecord
      updateRecord_fields_kept)

lemma held_totals_unchanged:
  "totalPointsEarned (toggleTask_held held taskId) = totalPointsEarned held"
  "maxPointsPossible (toggleTask_held held taskId) = maxPointsPossible held"
  "reportComment (toggleTask_held held taskId) = reportComment held"
  "customQuote (toggleTask_held held taskId) = customQuote held"
  by (simp_all add: toggleTask_held_def split: option.splits)

text \<open>
  The same stale write loses more than a quote. A task added between request and answer
  is not in the task array the request kept, so the answer stores a record without it.
  A task toggled in between is flipped in the kept object too, while the kept totals are
  those of the request: the answer then stores a completed task next to
  \<open>totalPointsEarned = 0\<close>.
\<close>

lemma late_response_drops_added_task:
  "length (tasks (currentRecord (addTask (initialState False) ''2024-05-01'' ''k3j9x0a1b'')
      ''2024-05-01'')) = 7
   \<and> length (tasks (currentRecord
        (fetchQuote_response
           (''2024-05-01'', currentRecord (initialState False) ''2024-05-01'') ''Late''
           (addTask (initialState False) ''2024-05-01'' ''k3j9x0a1b''))
        ''2024-05-01'')) = 6"
  by (simp add: eval_defs fetchQuote_response_def update_conv')

lemma late_response_after_toggle_stale_totals:
  "map (\<lambda>t. (id_str t, completed t)) (tasks (currentRecord
        (fetchQuote_response
           (''2024-05-01'',
            toggleTask_held (currentRecord (initialState False) ''2024-05-01'') ''1'')
           ''Late''
           (toggleTask (initialState False) ''2024-05-01'' ''1''))
        ''2024-05-01''))
     = [(''1'', True), (''2'', False), (''3'', False), (''4'', False), (''5'', False),
        (''6'', False)]
   \<and> totalPointsEarned (currentRecord
        (fetchQuote_response
           (''2024-05-01'',
            toggleTask_held (currentRecord (initialState False) ''2024-05-01'') ''1'')
           ''Late''
           (toggleTask (initialState False) ''2024-05-01'' ''1''))
        ''2024-05-01'') = 0
   \<and> totalPointsEarned (currentRecord (toggleTask (initialState False) ''2024-05-01'' ''1'')
        ''2024-05-01'') = 10"
  by (simp add: eval_defs fetchQuote_response_def toggleTask_held_def update_conv')

section \<open>The average score\<close>

lemma sum_list_sort_key:
  fixes f :: "'a \<Rightarrow> int"
  shows "sum_list (map f (sort_key k xs)) = sum_list (map f xs)"
proof -
  have "sum_list (map f (sort_key k xs)) = sum_mset (image_mset f (mset (sort_key k xs)))"
    by (simp only: sum_mset_sum_list[symmetric] mset_map)
  also have "\<dots> = sum_mset (image_mset f (mset xs))" by (simp only: mset_sort)
  also have "\<dots> = sum_list (map f xs)"
    by (simp only: sum_mset_sum_list[symmetric] mset_map)
  finally show ?thesis .
qed

lemma avgScore_eq:
  "avgScore s =
    (if records s = [] then 0
     else Math_round (of_int (sum_list (map (totalPointsEarned \<circ> snd) (records s)))
                       / of_nat (length (records s))))"
proof -
  have f: "(\<lambda>acc r. acc + (if totalPointsEarned r = 0 then 0 else totalPointsEarned r))
             = (\<lambda>acc r. acc + totalPointsEarned r)"
    by (intro ext) simp
  have "foldl (\<lambda>acc r. acc + (if totalPointsEarned r = 0 then 0 else totalPointsEarned r)) 0
          (allRecords s) = sum_list (map (totalPointsEarned \<circ> snd) (records s))"
    by (simp only: f foldl_plus_sum_list allRecords_def sum_list_sort_key) simp
  moreover have len: "length (allRecords s) = length (records s)"
    by (simp add: allRecords_def)
  moreover from len have "(allRecords s = []) = (records s = [])"
    by (metis length_0_conv)
  ultimately show ?thesis
    by (simp add: avgScore_def Let_def Math_round_def)
qed

lemma twoDays_totals:
  "map (totalPointsEarned \<circ> snd) (records twoDays) = [10, 15]"
  by (simp add: twoDays_def eval_defs)

text \<open>
  C6 as stated fails: with 10 points on one day and 15 on another the mean is 12.5, and
  \<open>avgScore\<close> is 13.
\<close>

theorem avgScore_mean_counterexample:
  "map (totalPointsEarned \<circ> snd) (records twoDays) = [10, 15]
   \<and> spec_mean twoDays = 25 / 2
   \<and> avgScore twoDays = 13
   \<and> of_int (avgScore twoDays) \<noteq> spec_mean twoDays"
proof -
  have ne: "records twoDays \<noteq> []" and len: "length (records twoDays) = 2"
    using twoDays_totals by (auto simp: map_eq_Cons_conv)
  have m: "spec_mean twoDays = 25 / 2"
    using ne by (simp add: spec_mean_def twoDays_totals[simplified] len)
  have "avgScore twoDays = 13"
    using ne by (simp add: avgScore_eq twoDays_totals[simplified] len Math_round_def)
  with m twoDays_totals show ?thesis by simp
qed

text \<open>
  C6, amended. \<open>avgScore\<close> is the arithmetic mean of \<open>totalPointsEarned\<close> over the records
  of the mapping rounded to the nearest integer, a half rounded up; it lies within one
  half of the mean, and it is \<open>0\<close> for an empty mapping.
\<close>

theorem avgScore_is_rounded_mean:
  "avgScore s = Math_round (spec_mean s)
   \<and> spec_mean s - 1 / 2 < of_int (avgScore s)
   \<and> of_int (avgScore s) \<le> spec_mean s + 1 / 2
   \<and> avgScore (s\<lparr>records := []\<rparr>) = 0"
proof -
  have a: "avgScore s = Math_round (spec_mean s)"
    by (simp add: avgScore_eq spec_mean_def Math_round_def)
  have "spec_mean s - 1 / 2 < of_int (Math_round (spec_mean s))"
    unfolding Math_round_def by linarith
  moreover have "of_int (Math_round (spec_mean s)) \<le> spec_mean s + 1 / 2"
    unfolding Math_round_def by linarith
  moreover have "avgScore (s\<lparr>records := []\<rparr>) = 0"
    by (simp add: avgScore_eq)
  ultimately show ?thesis using a by simp
qed

end
